theory Spec2Isabelle
  imports Main "HOL-Library.Word"
begin

section \<open>Data model of the BLE client (ble\_client.cpp, app\_events.h)\<close>

text \<open>
  The client keeps its state in file-level globals. They become the fields of one record,
  threaded through every function. The BLE stack and the FreeRTOS scheduler are outside
  the repository: what they answer to each call is given by an environment record
  \<open>link_env\<close>, one per protocol attempt. The calls the client makes to the BLE stack and
  to the display module are recorded in two logs, so that "performs no scan" and "emits no
  Status transition" are statements about the logs.
\<close>

type_synonym int8_t = "8 word"

datatype ble_status_t =
  BLE_STATUS_DISCONNECTED | BLE_STATUS_CONNECTING | BLE_STATUS_CONNECTED | BLE_STATUS_FAILED

record BLEAdvertisedDevice =
  address :: string
  services :: "string list"

text \<open>The remote characteristic handle: its properties, and what its 0x2902 descriptor
  answers (\<open>None\<close>: no such descriptor; \<open>Some ok\<close>: the result of writing to it).\<close>

record BLERemoteCharacteristic =
  canRead :: bool
  canWrite :: bool
  canNotify :: bool
  descriptor2902 :: "bool option"

datatype callback = OnConnect | OnDisconnect

datatype ble_call =
  ScanStart | ClearResults | CreateClient | ClientConnect BLEAdvertisedDevice
  | ClientDisconnect | GetService | GetCharacteristic | DescriptorWrite
  | RegisterForNotify | ReadValue | WriteValue int8_t

datatype ui_call =
  UpdateBleStatus ble_status_t | UpdateDisplayValue int8_t
  | ShowCheckmark | HideCheckmark | ResetInactivityTimer | HaEncoderTurn int

record ble_state =
  connected :: bool
  pRemoteCharacteristic :: "BLERemoteCharacteristic option"
  myDevice :: "BLEAdvertisedDevice option"
  pClient :: "bool option"
  bleMutex :: bool
  writeTaskHandle :: bool
  initialReadTaskHandle :: bool
  write_tasks :: nat
  initial_read_tasks :: nat
  target_weight :: int8_t
  weight_buffer :: int8_t
  ble_write_timer :: bool
  timer_pending :: bool
  status :: ble_status_t
  checkmark :: bool
  display_value :: "int8_t option"
  ui_log :: "ui_call list"
  ble_log :: "ble_call list"

text \<open>
  Reading of the fields: \<open>pClient = None\<close> is the null pointer and \<open>Some c\<close> a client
  whose \<open>isConnected()\<close> answers \<open>c\<close>; \<open>bleMutex\<close> is true while the running task holds
  the mutex; a task handle is true when it is not \<open>NULL\<close>; \<open>write_tasks\<close> and
  \<open>initial_read_tasks\<close> count the live task instances; \<open>ble_write_timer\<close> is true when
  the debounce timer exists and \<open>timer_pending\<close> when it is running.
  \<open>status\<close>, \<open>checkmark\<close> and \<open>display_value\<close> are the last
  values the client passed to the display module (\<open>display_value = None\<close>: no value
  was shown yet).
\<close>

text \<open>What the BLE stack and the scheduler answer during one attempt.\<close>

record link_env =
  take_ok :: bool
  scan_results :: "BLEAdvertisedDevice list option"
  connect_ok :: bool
  cb_connect_settle :: "callback option"
  service_found :: bool
  characteristic_lookup :: "BLERemoteCharacteristic option option"
  cb_before_write :: "callback option"
  write_result :: "bool option"
  cb_before_verify :: "callback option"
  read_result :: "int8_t list option"
  cb_after_disconnect :: "callback option"
  cb_backoff :: "callback option"

text \<open>
  \<open>take_ok\<close>: the result of \<open>xSemaphoreTake\<close>; \<open>scan_results = None\<close>: the scan did not
  start; \<open>characteristic_lookup = None\<close>: \<open>getCharacteristic\<close> threw, \<open>Some None\<close>: it
  returned null; \<open>write_result = None\<close> and \<open>read_result = None\<close>: the transport call
  threw; \<open>read_result = Some bytes\<close>: the bytes of the returned string. The \<open>cb_\<close> fields
  say which client callback, if any, the stack delivers during the corresponding
  \<open>vTaskDelay\<close>.
\<close>

definition serviceUUID :: string where
  "serviceUUID = ''00000000-0000-0000-0000-000000000ffe''"

definition isAdvertisingService :: "BLEAdvertisedDevice \<Rightarrow> string \<Rightarrow> bool" where
  "isAdvertisingService d u = List.member (services d) u"

subsection \<open>Calls to the display module (lvgl\_display.h)\<close>

definition update_ble_status :: "ble_status_t \<Rightarrow> ble_state \<Rightarrow> ble_state" where
  "update_ble_status st s = s\<lparr>status := st, ui_log := ui_log s @ [UpdateBleStatus st]\<rparr>"

definition update_display_value :: "int8_t \<Rightarrow> ble_state \<Rightarrow> ble_state" where
  "update_display_value w s =
     s\<lparr>display_value := Some w, ui_log := ui_log s @ [UpdateDisplayValue w]\<rparr>"

definition show_verification_checkmark :: "ble_state \<Rightarrow> ble_state" where
  "show_verification_checkmark s = s\<lparr>checkmark := True, ui_log := ui_log s @ [ShowCheckmark]\<rparr>"

definition hide_verification_checkmark :: "ble_state \<Rightarrow> ble_state" where
  "hide_verification_checkmark s =
     s\<lparr>checkmark := False, ui_log := ui_log s @ [HideCheckmark]\<rparr>"

definition ble_call :: "ble_call \<Rightarrow> ble_state \<Rightarrow> ble_state" where
  "ble_call c s = s\<lparr>ble_log := ble_log s @ [c]\<rparr>"

subsection \<open>Client callbacks (MyClientCallback) and delays\<close>

definition onConnect :: "ble_state \<Rightarrow> ble_state" where
  "onConnect s = update_ble_status BLE_STATUS_CONNECTED (s\<lparr>connected := True\<rparr>)"

definition onDisconnect :: "ble_state \<Rightarrow> ble_state" where
  "onDisconnect s =
     update_ble_status BLE_STATUS_DISCONNECTED
       (s\<lparr>connected := False, pRemoteCharacteristic := None\<rparr>)"

fun vTaskDelay :: "callback option \<Rightarrow> ble_state \<Rightarrow> ble_state" where
  "vTaskDelay None s = s"
| "vTaskDelay (Some OnConnect) s = onConnect s"
| "vTaskDelay (Some OnDisconnect) s = onDisconnect s"

section \<open>Peripheral link: connectToServer and disconnectFromServer\<close>

text \<open>The \<open>for\<close> loop over the scan results: it stores the first device that advertises
  the service and breaks; \<open>md\<close> is \<open>myDevice\<close>, left as it is when nothing matches.\<close>

fun scan_loop :: "BLEAdvertisedDevice list \<Rightarrow> BLEAdvertisedDevice option
    \<Rightarrow> BLEAdvertisedDevice option" where
  "scan_loop [] md = md"
| "scan_loop (device # rest) md =
     (if isAdvertisingService device serviceUUID then Some device else scan_loop rest md)"

text \<open>Step 5 of connectToServer and the registration for notifications.\<close>

definition register_notifications :: "BLERemoteCharacteristic \<Rightarrow> ble_state \<Rightarrow> ble_state" where
  "register_notifications c s =
     (if canNotify c then
        (case descriptor2902 c of
           None \<Rightarrow> s
         | Some ok \<Rightarrow>
             (if ok then ble_call RegisterForNotify (ble_call DescriptorWrite s)
              else ble_call DescriptorWrite s))
      else s)"

definition client_disconnect :: "ble_state \<Rightarrow> ble_state" where
  "client_disconnect s = ble_call ClientDisconnect (s\<lparr>pClient := Some False\<rparr>)"

definition discover :: "link_env \<Rightarrow> ble_state \<Rightarrow> bool \<times> ble_state" where
  "discover env s =
     (let s1 = ble_call GetService s in
      if \<not> service_found env then
        (False, update_ble_status BLE_STATUS_FAILED (client_disconnect s1))
      else
        let s2 = ble_call GetCharacteristic s1;
            s3 = (case characteristic_lookup env of
                    None \<Rightarrow> s2
                  | Some r \<Rightarrow> s2\<lparr>pRemoteCharacteristic := r\<rparr>)
        in (case pRemoteCharacteristic s3 of
              None \<Rightarrow> (False, update_ble_status BLE_STATUS_FAILED (client_disconnect s3))
            | Some c \<Rightarrow>
                (True, update_ble_status BLE_STATUS_CONNECTED (register_notifications c s3))))"

text \<open>Step 4: create the client if there is none, connect, wait for the callback.\<close>

definition connect_client :: "link_env \<Rightarrow> BLEAdvertisedDevice \<Rightarrow> ble_state
    \<Rightarrow> bool \<times> ble_state" where
  "connect_client env dev s =
     (let s1 = (if pClient s = None then ble_call CreateClient (s\<lparr>pClient := Some False\<rparr>)
                else s);
          s2 = ble_call (ClientConnect dev) s1
      in if \<not> connect_ok env then (False, update_ble_status BLE_STATUS_FAILED s2)
         else discover env (vTaskDelay (cb_connect_settle env) (s2\<lparr>pClient := Some True\<rparr>)))"

definition connectToServer :: "link_env \<Rightarrow> ble_state \<Rightarrow> bool \<times> ble_state" where
  "connectToServer env s =
     (if connected s then (True, s)
      else
        let s1 = ble_call ScanStart (update_ble_status BLE_STATUS_CONNECTING s) in
        (case scan_results env of
           None \<Rightarrow> (False, update_ble_status BLE_STATUS_FAILED s1)
         | Some results \<Rightarrow>
             (let s2 = s1\<lparr>myDevice := None\<rparr>;
                  s3 = s2\<lparr>myDevice := scan_loop results (myDevice s2)\<rparr>;
                  s4 = ble_call ClearResults s3
              in (case myDevice s4 of
                    None \<Rightarrow> (False, update_ble_status BLE_STATUS_FAILED s4)
                  | Some dev \<Rightarrow> connect_client env dev s4))))"

definition disconnectFromServer :: "ble_state \<Rightarrow> ble_state" where
  "disconnectFromServer s =
     (let s1 = (if pClient s = Some True then client_disconnect s else s)
      in update_ble_status BLE_STATUS_DISCONNECTED
           (s1\<lparr>connected := False, pRemoteCharacteristic := None\<rparr>))"

section \<open>Read and write primitives\<close>

definition characteristic_can :: "(BLERemoteCharacteristic \<Rightarrow> bool) \<Rightarrow> ble_state \<Rightarrow> bool" where
  "characteristic_can p s = (case pRemoteCharacteristic s of None \<Rightarrow> False | Some c \<Rightarrow> p c)"

text \<open>Returns the first byte read, or \<open>-1\<close> on an exception, on an empty answer, and
  when not connected, without a handle or without the read property.\<close>

definition internal_read_weight :: "link_env \<Rightarrow> ble_state \<Rightarrow> int8_t \<times> ble_state" where
  "internal_read_weight env s =
     (if connected s \<and> characteristic_can canRead s then
        (let s1 = ble_call ReadValue s in
         case read_result env of
           None \<Rightarrow> (- 1, s1)
         | Some v \<Rightarrow> (case v of [] \<Rightarrow> (- 1, s1) | b # _ \<Rightarrow> (b, s1)))
      else (- 1, s))"

definition internal_write_weight :: "int8_t \<Rightarrow> link_env \<Rightarrow> ble_state \<Rightarrow> bool \<times> ble_state" where
  "internal_write_weight weight env s =
     (if connected s \<and> characteristic_can canWrite s then
        (let s1 = ble_call (WriteValue weight) s;
             writeSuccess = (case write_result env of None \<Rightarrow> False | Some r \<Rightarrow> r)
         in if writeSuccess then (True, s1) else (False, s1))
      else (False, s))"

section \<open>Tasks\<close>

definition xSemaphoreGive :: "ble_state \<Rightarrow> ble_state" where
  "xSemaphoreGive s = s\<lparr>bleMutex := False\<rparr>"

definition xSemaphoreTaken :: "ble_state \<Rightarrow> ble_state" where
  "xSemaphoreTaken s = s\<lparr>bleMutex := True\<rparr>"

text \<open>
  The \<open>while(true)\<close> loop of the initial read, one environment per round. The result is
  \<open>(True, s)\<close> when the loop has left through its \<open>break\<close> in state \<open>s\<close>, and
  \<open>(False, s)\<close> when the rounds given are used up and the loop is still running, in
  state \<open>s\<close>.
\<close>

fun initial_read_loop :: "link_env list \<Rightarrow> ble_state \<Rightarrow> bool \<times> ble_state" where
  "initial_read_loop [] s = (False, s)"
| "initial_read_loop (env # rest) s =
     (if take_ok env then
        (case connectToServer env (xSemaphoreTaken s) of
           (True, s1) \<Rightarrow>
             (case internal_read_weight env s1 of
                (initial_weight, s2) \<Rightarrow>
                  (let s3 = disconnectFromServer s2 in
                   if sint initial_weight \<noteq> - 1 then
                     (True,
                      xSemaphoreGive
                        (update_ble_status BLE_STATUS_DISCONNECTED
                          (show_verification_checkmark
                            (update_display_value initial_weight
                              (s3\<lparr>target_weight := initial_weight\<rparr>)))))
                   else
                     initial_read_loop rest
                       (vTaskDelay (cb_backoff env)
                         (xSemaphoreGive (update_ble_status BLE_STATUS_FAILED s3)))))
         | (False, s1) \<Rightarrow>
             initial_read_loop rest (vTaskDelay (cb_backoff env) (xSemaphoreGive s1)))
      else
        initial_read_loop rest
          (vTaskDelay (cb_backoff env) (update_ble_status BLE_STATUS_FAILED s)))"

text \<open>The task: it returns (and deletes itself) only when the loop has left; \<open>None\<close> is
  the task still looping.\<close>

definition initial_read_task :: "callback option \<Rightarrow> link_env list \<Rightarrow> ble_state
    \<Rightarrow> ble_state option" where
  "initial_read_task cb_boot envs s =
     (case initial_read_loop envs (vTaskDelay cb_boot s) of
        (True, s1) \<Rightarrow>
          Some (s1\<lparr>initialReadTaskHandle := False,
                   initial_read_tasks := initial_read_tasks s1 - 1\<rparr>)
      | (False, s1) \<Rightarrow> None)"

text \<open>Steps 3 and 4 of the write task: write, wait, read back, compare.\<close>

definition write_and_verify :: "int8_t \<Rightarrow> link_env \<Rightarrow> ble_state \<Rightarrow> bool \<times> ble_state" where
  "write_and_verify weight_to_write env s =
     (case internal_write_weight weight_to_write env s of
        (True, s1) \<Rightarrow>
          (case internal_read_weight env (vTaskDelay (cb_before_verify env) s1) of
             (read_value, s2) \<Rightarrow>
               if sint read_value = sint weight_to_write then
                 (True,
                  show_verification_checkmark
                    (update_display_value weight_to_write
                      (s2\<lparr>target_weight := weight_to_write\<rparr>)))
               else
                 (False, update_ble_status BLE_STATUS_FAILED (hide_verification_checkmark s2)))
      | (False, s1) \<Rightarrow>
          (False, update_ble_status BLE_STATUS_FAILED (hide_verification_checkmark s1)))"

text \<open>The write task up to the release of the mutex; the flag is \<open>final_success\<close>.\<close>

definition write_verify_attempt :: "link_env \<Rightarrow> ble_state \<Rightarrow> bool \<times> ble_state" where
  "write_verify_attempt env s =
     (let weight_to_write = weight_buffer s in
      if take_ok env then
        (case connectToServer env (xSemaphoreTaken s) of
           (True, s1) \<Rightarrow>
             (case write_and_verify weight_to_write env
                     (vTaskDelay (cb_before_write env) s1) of
                (final_success, s2) \<Rightarrow>
                  (final_success,
                   xSemaphoreGive
                     (vTaskDelay (cb_after_disconnect env) (disconnectFromServer s2))))
         | (False, s1) \<Rightarrow> (False, xSemaphoreGive (hide_verification_checkmark s1)))
      else
        (False, update_ble_status BLE_STATUS_FAILED (hide_verification_checkmark s)))"

definition write_verify_task :: "link_env \<Rightarrow> ble_state \<Rightarrow> ble_state" where
  "write_verify_task env s =
     (case write_verify_attempt env s of
        (final_success, s1) \<Rightarrow>
          (let s2 = (if final_success then update_ble_status BLE_STATUS_DISCONNECTED s1
                     else s1)
           in s2\<lparr>writeTaskHandle := False, write_tasks := write_tasks s2 - 1\<rparr>))"

section \<open>Task coordinator: the public entry points\<close>

text \<open>\<open>created\<close> is whether \<open>xTaskCreate\<close> answers \<open>pdPASS\<close>.\<close>

definition ble_perform_initial_read :: "bool \<Rightarrow> ble_state \<Rightarrow> ble_state" where
  "ble_perform_initial_read created s =
     (if initialReadTaskHandle s then s
      else if created then
        s\<lparr>initialReadTaskHandle := True, initial_read_tasks := initial_read_tasks s + 1\<rparr>
      else update_ble_status BLE_STATUS_FAILED (s\<lparr>initialReadTaskHandle := False\<rparr>))"

definition write_target_weight :: "bool \<Rightarrow> int8_t \<Rightarrow> ble_state \<Rightarrow> ble_state" where
  "write_target_weight created weight s =
     (if writeTaskHandle s \<or> initialReadTaskHandle s then s
      else
        (let s1 = update_ble_status BLE_STATUS_CONNECTING
                    (hide_verification_checkmark (s\<lparr>weight_buffer := weight\<rparr>))
         in if created then
              s1\<lparr>writeTaskHandle := True, write_tasks := write_tasks s1 + 1\<rparr>
            else
              hide_verification_checkmark
                (update_ble_status BLE_STATUS_FAILED (s1\<lparr>writeTaskHandle := False\<rparr>))))"

section \<open>Rotary encoder (encoder.cpp)\<close>

datatype screen = screen_shot_stopper | screen_ha | screen_other

definition reset_inactivity_timer :: "ble_state \<Rightarrow> ble_state" where
  "reset_inactivity_timer s = s\<lparr>ui_log := ui_log s @ [ResetInactivityTimer]\<rparr>"

definition ha_ui_handle_encoder_turn :: "int \<Rightarrow> ble_state \<Rightarrow> ble_state" where
  "ha_ui_handle_encoder_turn direction s = s\<lparr>ui_log := ui_log s @ [HaEncoderTurn direction]\<rparr>"

definition xTimerReset :: "ble_state \<Rightarrow> ble_state" where
  "xTimerReset s = s\<lparr>timer_pending := True\<rparr>"

text \<open>\<open>target_weight--\<close> and \<open>target_weight++\<close> on an \<open>int8_t\<close>: the value is promoted to
  \<open>int\<close>, changed by one and converted back to eight bits.\<close>

definition decrement :: "int8_t \<Rightarrow> int8_t" where
  "decrement w = word_of_int (sint w - 1)"

definition increment :: "int8_t \<Rightarrow> int8_t" where
  "increment w = word_of_int (sint w + 1)"

definition knob_turned :: "int8_t \<Rightarrow> ble_state \<Rightarrow> ble_state" where
  "knob_turned w s =
     (let s1 = update_display_value w (hide_verification_checkmark (s\<lparr>target_weight := w\<rparr>))
      in if ble_write_timer s1 then xTimerReset s1 else s1)"

definition knob_left_cb :: "screen \<Rightarrow> ble_state \<Rightarrow> ble_state" where
  "knob_left_cb current_screen s =
     (let s0 = reset_inactivity_timer s in
      if current_screen = screen_shot_stopper then
        knob_turned (decrement (target_weight s0)) s0
      else if current_screen = screen_ha then ha_ui_handle_encoder_turn (- 1) s0
      else s0)"

definition knob_right_cb :: "screen \<Rightarrow> ble_state \<Rightarrow> ble_state" where
  "knob_right_cb current_screen s =
     (let s0 = reset_inactivity_timer s in
      if current_screen = screen_shot_stopper then
        knob_turned (increment (target_weight s0)) s0
      else if current_screen = screen_ha then ha_ui_handle_encoder_turn 1 s0
      else s0)"

definition ble_write_timer_callback :: "bool \<Rightarrow> ble_state \<Rightarrow> ble_state" where
  "ble_write_timer_callback created s =
     write_target_weight created (target_weight s) (s\<lparr>timer_pending := False\<rparr>)"

section \<open>Start-up\<close>

text \<open>The globals as their initialisers leave them, and the two initialisation functions
  that touch them (\<open>timer_created\<close>: whether \<open>xTimerCreate\<close> gave a timer).\<close>

definition initial_globals :: ble_state where
  "initial_globals =
     \<lparr>connected = False, pRemoteCharacteristic = None, myDevice = None, pClient = None,
      bleMutex = False, writeTaskHandle = False, initialReadTaskHandle = False,
      write_tasks = 0, initial_read_tasks = 0, target_weight = 36, weight_buffer = 0,
      ble_write_timer = False, timer_pending = False, status = BLE_STATUS_DISCONNECTED,
      checkmark = False, display_value = None, ui_log = [], ble_log = []\<rparr>"

definition encoder_init :: "bool \<Rightarrow> ble_state \<Rightarrow> ble_state" where
  "encoder_init timer_created s = s\<lparr>ble_write_timer := timer_created\<rparr>"

definition ble_client_init :: "ble_state \<Rightarrow> ble_state" where
  "ble_client_init s = update_ble_status BLE_STATUS_DISCONNECTED s"

definition boot_state :: ble_state where
  "boot_state = ble_client_init (encoder_init True initial_globals)"

section \<open>Example environments\<close>

text \<open>A peripheral that advertises the service, one that does not, a readable and writable
  characteristic, and two scans: one attempt with the peripheral in range, answering a
  read with the given bytes, and one with the peripheral absent.\<close>

definition shot_stopper :: BLEAdvertisedDevice where
  "shot_stopper = \<lparr>address = ''24:6f:28:aa:00:01'', services = [serviceUUID]\<rparr>"

definition second_shot_stopper :: BLEAdvertisedDevice where
  "second_shot_stopper = \<lparr>address = ''24:6f:28:aa:00:02'', services = [serviceUUID]\<rparr>"

definition heart_rate_strap :: BLEAdvertisedDevice where
  "heart_rate_strap =
     \<lparr>address = ''c0:11:22:33:44:55'', services = [''0000180d-0000-1000-8000-00805f9b34fb'']\<rparr>"

definition weight_characteristic :: BLERemoteCharacteristic where
  "weight_characteristic =
     \<lparr>canRead = True, canWrite = True, canNotify = False, descriptor2902 = None\<rparr>"

definition in_range :: "int8_t list option \<Rightarrow> link_env" where
  "in_range answer =
     \<lparr>take_ok = True,
      scan_results = Some [heart_rate_strap, shot_stopper, second_shot_stopper],
      connect_ok = True, cb_connect_settle = Some OnConnect, service_found = True,
      characteristic_lookup = Some (Some weight_characteristic), cb_before_write = None,
      write_result = Some True, cb_before_verify = None, read_result = answer,
      cb_after_disconnect = Some OnDisconnect, cb_backoff = None\<rparr>"

definition absent :: link_env where
  "absent =
     \<lparr>take_ok = True, scan_results = Some [heart_rate_strap],
      connect_ok = False, cb_connect_settle = None, service_found = False,
      characteristic_lookup = Some None, cb_before_write = None,
      write_result = Some False, cb_before_verify = None, read_result = Some [],
      cb_after_disconnect = None, cb_backoff = None\<rparr>"

section \<open>The coordinator as a transition system\<close>

text \<open>
  The entry points are called from the UI tasks while the protocol tasks run. At the level
  of the task handles the system moves by four kinds of events: a write request, an
  initial-read request, a spawned write task running to its end, and a spawned initial
  read task running (to its end, or through the rounds given without leaving its loop).
\<close>

datatype event =
  RequestWrite bool int8_t | RequestInitialRead bool
  | WriteTaskRuns link_env | InitialReadRuns "callback option" "link_env list"

fun step :: "event \<Rightarrow> ble_state \<Rightarrow> ble_state" where
  "step (RequestWrite created w) s = write_target_weight created w s"
| "step (RequestInitialRead created) s = ble_perform_initial_read created s"
| "step (WriteTaskRuns env) s = (if 0 < write_tasks s then write_verify_task env s else s)"
| "step (InitialReadRuns cb envs) s =
     (if 0 < initial_read_tasks s then
        (case initial_read_task cb envs s of
           Some s1 \<Rightarrow> s1
         | None \<Rightarrow> snd (initial_read_loop envs (vTaskDelay cb s)))
      else s)"

text \<open>The number of operation requests in flight, and the bookkeeping invariant: at most
  one task of each kind, and a handle is set exactly when its task is live.\<close>

definition operations_active :: "ble_state \<Rightarrow> nat" where
  "operations_active s = write_tasks s + initial_read_tasks s"

definition coordinator_inv :: "ble_state \<Rightarrow> bool" where
  "coordinator_inv s =
     (write_tasks s \<le> 1 \<and> initial_read_tasks s \<le> 1
      \<and> (writeTaskHandle s = (write_tasks s = 1))
      \<and> (initialReadTaskHandle s = (initial_read_tasks s = 1)))"

text \<open>The fields the link layer never writes, and the task bookkeeping among them.\<close>

definition app_part :: "ble_state \<Rightarrow>
    bool \<times> bool \<times> bool \<times> nat \<times> nat \<times> int8_t \<times> int8_t \<times> bool \<times> bool \<times> bool
    \<times> int8_t option" where
  "app_part s = (bleMutex s, writeTaskHandle s, initialReadTaskHandle s, write_tasks s,
     initial_read_tasks s, target_weight s, weight_buffer s, ble_write_timer s,
     timer_pending s, checkmark s, display_value s)"

definition task_part :: "ble_state \<Rightarrow> bool \<times> bool \<times> nat \<times> nat" where
  "task_part s =
     (writeTaskHandle s, initialReadTaskHandle s, write_tasks s, initial_read_tasks s)"

text \<open>The read primitive reports an error: it is not connected, has no handle or the
  characteristic has no read property; or the transport call threw; or the answer was
  empty.\<close>

definition read_fails :: "link_env \<Rightarrow> ble_state \<Rightarrow> bool" where
  "read_fails env s =
     (\<not> connected s \<or> \<not> characteristic_can canRead s
      \<or> read_result env = None \<or> read_result env = Some [])"

section \<open>Helper facts\<close>

lemmas ui_defs = update_ble_status_def update_display_value_def
  show_verification_checkmark_def hide_verification_checkmark_def ble_call_def

lemmas example_defs = shot_stopper_def second_shot_stopper_def heart_rate_strap_def
  weight_characteristic_def in_range_def absent_def boot_state_def initial_globals_def
  ble_client_init_def encoder_init_def serviceUUID_def isAdvertisingService_def

lemma scan_loop_first:
  "\<forall>x\<in>set pre. \<not> isAdvertisingService x serviceUUID \<Longrightarrow>
   isAdvertisingService d serviceUUID \<Longrightarrow> scan_loop (pre @ d # post) md = Some d"
  by (induction pre) auto

lemma scan_loop_none:
  "\<forall>x\<in>set rs. \<not> isAdvertisingService x serviceUUID \<Longrightarrow> scan_loop rs md = md"
  by (induction rs) auto

lemma myDevice_discover: "myDevice (snd (discover env s)) = myDevice s"
  by (simp add: discover_def Let_def ui_defs client_disconnect_def
      register_notifications_def split: option.splits)

lemma myDevice_vTaskDelay: "myDevice (vTaskDelay cb s) = myDevice s"
  by (cases "(cb, s)" rule: vTaskDelay.cases)
    (simp_all add: onConnect_def onDisconnect_def ui_defs)

lemma myDevice_connect_client: "myDevice (snd (connect_client env d s)) = myDevice s"
  by (simp add: connect_client_def Let_def ui_defs myDevice_discover myDevice_vTaskDelay)

subsection \<open>Frame lemmas\<close>

lemma app_part_status [simp]: "app_part (update_ble_status st s) = app_part s"
  by (simp add: app_part_def update_ble_status_def)

lemma app_part_ble_call [simp]: "app_part (ble_call c s) = app_part s"
  by (simp add: app_part_def ble_call_def)

lemma app_part_link [simp]:
  "app_part (s\<lparr>connected := a\<rparr>) = app_part s"
  "app_part (s\<lparr>pRemoteCharacteristic := b\<rparr>) = app_part s"
  "app_part (s\<lparr>myDevice := c\<rparr>) = app_part s"
  "app_part (s\<lparr>pClient := d\<rparr>) = app_part s"
  by (simp_all add: app_part_def)

lemma app_part_vTaskDelay [simp]: "app_part (vTaskDelay cb s) = app_part s"
  by (cases "(cb, s)" rule: vTaskDelay.cases) (simp_all add: onConnect_def onDisconnect_def)

lemma app_part_client_disconnect [simp]: "app_part (client_disconnect s) = app_part s"
  by (simp add: client_disconnect_def)

lemma app_part_register [simp]: "app_part (register_notifications c s) = app_part s"
  by (simp add: register_notifications_def split: option.splits)

lemma app_part_discover [simp]: "app_part (snd (discover env s)) = app_part s"
  by (simp add: discover_def Let_def split: option.splits)

lemma app_part_connect_client [simp]: "app_part (snd (connect_client env d s)) = app_part s"
  by (simp add: connect_client_def Let_def)

lemma app_part_connectToServer [simp]: "app_part (snd (connectToServer env s)) = app_part s"
  by (simp add: connectToServer_def Let_def split: option.splits)

lemma app_part_disconnect [simp]: "app_part (disconnectFromServer s) = app_part s"
  by (simp add: disconnectFromServer_def Let_def)

lemma app_part_read [simp]: "app_part (snd (internal_read_weight env s)) = app_part s"
  by (simp add: internal_read_weight_def Let_def split: option.splits list.splits)

lemma app_part_write [simp]: "app_part (snd (internal_write_weight w env s)) = app_part s"
  by (simp add: internal_write_weight_def Let_def split: option.splits)


lemma task_part_app: "app_part s' = app_part s \<Longrightarrow> task_part s' = task_part s"
  by (simp add: app_part_def task_part_def)

lemma task_part_ui [simp]:
  "task_part (update_ble_status st s) = task_part s"
  "task_part (update_display_value w s) = task_part s"
  "task_part (show_verification_checkmark s) = task_part s"
  "task_part (hide_verification_checkmark s) = task_part s"
  "task_part (xSemaphoreGive s) = task_part s"
  "task_part (xSemaphoreTaken s) = task_part s"
  "task_part (s\<lparr>target_weight := w\<rparr>) = task_part s"
  by (simp_all add: task_part_def ui_defs xSemaphoreGive_def xSemaphoreTaken_def)

lemma task_part_link [simp]:
  "task_part (vTaskDelay cb s) = task_part s"
  "task_part (disconnectFromServer s) = task_part s"
  "task_part (snd (connectToServer env s)) = task_part s"
  "task_part (snd (internal_read_weight env s)) = task_part s"
  "task_part (snd (internal_write_weight w env s)) = task_part s"
  by (rule task_part_app, simp)+

lemma task_part_write_and_verify [simp]:
  "task_part (snd (write_and_verify w env s)) = task_part s"
proof -
  obtain b s1 where w: "internal_write_weight w env s = (b, s1)" by fastforce
  obtain v s2 where r: "internal_read_weight env (vTaskDelay (cb_before_verify env) s1) = (v, s2)"
    by fastforce
  from w have 1: "task_part s1 = task_part s"
    using task_part_link(5) [of w env s] by simp
  from r have 2: "task_part s2 = task_part s1"
    using task_part_link(4) [of env "vTaskDelay (cb_before_verify env) s1"] by simp
  show ?thesis using w r 1 2 by (cases b) (simp_all add: write_and_verify_def)
qed

lemma task_part_write_verify_attempt [simp]:
  "task_part (snd (write_verify_attempt env s)) = task_part s"
proof -
  obtain c s1 where c: "connectToServer env (xSemaphoreTaken s) = (c, s1)" by fastforce
  obtain f s2 where v: "write_and_verify (weight_buffer s) env (vTaskDelay (cb_before_write env) s1) = (f, s2)"
    by fastforce
  from c have 1: "task_part s1 = task_part s"
    using task_part_link(3) [of env "xSemaphoreTaken s"] by simp
  from v have 2: "task_part s2 = task_part s1"
    using task_part_write_and_verify [of "weight_buffer s" env "vTaskDelay (cb_before_write env) s1"] by simp
  show ?thesis using c v 1 2 by (cases c) (simp_all add: write_verify_attempt_def Let_def)
qed

lemma task_part_write_verify_task:
  "task_part (write_verify_task env s)
     = (False, initialReadTaskHandle s, write_tasks s - 1, initial_read_tasks s)"
proof -
  obtain f s1 where a: "write_verify_attempt env s = (f, s1)" by fastforce
  then have "task_part s1 = task_part s"
    using task_part_write_verify_attempt [of env s] by simp
  then show ?thesis using a
    by (simp add: write_verify_task_def Let_def task_part_def update_ble_status_def)
qed

lemma task_part_initial_read_loop [simp]:
  "task_part (snd (initial_read_loop envs s)) = task_part s"
proof (induction envs arbitrary: s)
  case Nil
  then show ?case by simp
next
  case (Cons env rest)
  obtain c s1 where c: "connectToServer env (xSemaphoreTaken s) = (c, s1)" by fastforce
  obtain v s2 where r: "internal_read_weight env s1 = (v, s2)" by fastforce
  from c have 1: "task_part s1 = task_part s"
    using task_part_link(3) [of env "xSemaphoreTaken s"] by simp
  from r have 2: "task_part s2 = task_part s1"
    using task_part_link(4) [of env s1] by simp
  show ?case using c r 1 2 by (cases c) (simp_all add: Cons.IH Let_def)
qed


lemma coordinator_inv_task_part:
  "coordinator_inv s =
     (case task_part s of (wh, ih, wt, it) \<Rightarrow>
        wt \<le> 1 \<and> it \<le> 1 \<and> (wh = (wt = 1)) \<and> (ih = (it = 1)))"
  by (simp add: coordinator_inv_def task_part_def)

lemma task_part_write_target_weight:
  "task_part (write_target_weight created w s) =
     (if writeTaskHandle s \<or> initialReadTaskHandle s then task_part s
      else if created then (True, False, write_tasks s + 1, initial_read_tasks s)
      else (False, False, write_tasks s, initial_read_tasks s))"
  by (simp add: write_target_weight_def Let_def task_part_def ui_defs)

lemma task_part_ble_perform_initial_read:
  "task_part (ble_perform_initial_read created s) =
     (if initialReadTaskHandle s then task_part s
      else if created then (writeTaskHandle s, True, write_tasks s, initial_read_tasks s + 1)
      else (writeTaskHandle s, False, write_tasks s, initial_read_tasks s))"
  by (simp add: ble_perform_initial_read_def task_part_def ui_defs)

lemma task_part_initial_read_task:
  "initial_read_task cb envs s = Some s1 \<Longrightarrow>
   task_part s1 = (writeTaskHandle s, False, write_tasks s, initial_read_tasks s - 1)"
proof -
  assume a: "initial_read_task cb envs s = Some s1"
  obtain b s2 where l: "initial_read_loop envs (vTaskDelay cb s) = (b, s2)" by fastforce
  then have "task_part s2 = task_part s"
    using task_part_initial_read_loop [of envs "vTaskDelay cb s"] by simp
  with a l show ?thesis
    by (cases b) (auto simp add: initial_read_task_def task_part_def)
qed

lemma coordinator_inv_from_task_part:
  "task_part s1 = (wh, ih, wt, it) \<Longrightarrow>
   coordinator_inv s1 = (wt \<le> 1 \<and> it \<le> 1 \<and> (wh = (wt = 1)) \<and> (ih = (it = 1)))"
  by (auto simp add: coordinator_inv_def task_part_def)

lemma step_coordinator_inv:
  assumes i: "coordinator_inv s"
  shows "coordinator_inv (step e s)"
proof (cases e)
  case (RequestWrite created w)
  show ?thesis
  proof (cases "writeTaskHandle s \<or> initialReadTaskHandle s")
    case True
    with i show ?thesis
      by (simp add: RequestWrite write_target_weight_def)
  next
    case False
    have "task_part (write_target_weight created w s) =
            (created, False, (if created then write_tasks s + 1 else write_tasks s),
             initial_read_tasks s)"
      using False by (simp add: task_part_write_target_weight)
    from coordinator_inv_from_task_part [OF this] i False show ?thesis
      by (auto simp add: RequestWrite coordinator_inv_def)
  qed
next
  case (RequestInitialRead created)
  show ?thesis
  proof (cases "initialReadTaskHandle s")
    case True
    with i show ?thesis
      by (simp add: RequestInitialRead ble_perform_initial_read_def)
  next
    case False
    have "task_part (ble_perform_initial_read created s) =
            (writeTaskHandle s, created, write_tasks s,
             (if created then initial_read_tasks s + 1 else initial_read_tasks s))"
      using False by (simp add: task_part_ble_perform_initial_read)
    from coordinator_inv_from_task_part [OF this] i False show ?thesis
      by (auto simp add: RequestInitialRead coordinator_inv_def)
  qed
next
  case (WriteTaskRuns env)
  from coordinator_inv_from_task_part [OF task_part_write_verify_task] i
  show ?thesis
    by (auto simp add: WriteTaskRuns coordinator_inv_def)
next
  case (InitialReadRuns cb envs)
  show ?thesis
  proof (cases "initial_read_task cb envs s")
    case None
    have "task_part (snd (initial_read_loop envs (vTaskDelay cb s))) = task_part s"
      by simp
    then have "coordinator_inv (snd (initial_read_loop envs (vTaskDelay cb s)))"
      using i by (simp add: coordinator_inv_task_part)
    with i None show ?thesis
      by (simp add: InitialReadRuns)
  next
    case (Some s1)
    from coordinator_inv_from_task_part [OF task_part_initial_read_task [OF Some]] i Some
    show ?thesis
      by (auto simp add: InitialReadRuns coordinator_inv_def)
  qed
qed

lemma fold_step_coordinator_inv:
  "coordinator_inv s \<Longrightarrow> coordinator_inv (fold step evs s)"
  by (induction evs arbitrary: s) (simp_all add: step_coordinator_inv)

subsection \<open>Eight-bit signed arithmetic\<close>

lemma decrement_eq: "decrement w = w - 1"
  by (simp add: decrement_def)

lemma increment_eq: "increment w = w + 1"
  by (simp add: increment_def)

lemma sint_word_of_int8: "sint (word_of_int k :: 8 word) = (k + 128) mod 256 - 128"
  by (simp add: sint_sbintrunc' signed_take_bit_eq_take_bit_shift take_bit_eq_mod)

lemma sint_eq8: "(sint (a :: 8 word) = sint b) = (a = b)"
  by (auto dest: signed_word_eqI)

lemma tw_right: "target_weight (knob_right_cb screen_shot_stopper s) = target_weight s + 1"
  by (simp add: knob_right_cb_def knob_turned_def Let_def reset_inactivity_timer_def
      xTimerReset_def increment_eq ui_defs)

lemma tw_left: "target_weight (knob_left_cb screen_shot_stopper s) = target_weight s - 1"
  by (simp add: knob_left_cb_def knob_turned_def Let_def reset_inactivity_timer_def
      xTimerReset_def decrement_eq ui_defs)

lemma tw_right_n:
  "target_weight ((knob_right_cb screen_shot_stopper ^^ n) s)
     = word_of_int (sint (target_weight s) + int n)"
  by (induction n) (simp_all add: tw_right)

lemma tw_left_n:
  "target_weight ((knob_left_cb screen_shot_stopper ^^ n) s)
     = word_of_int (sint (target_weight s) - int n)"
  by (induction n) (simp_all add: tw_left)

subsection \<open>The tasks, branch by branch\<close>

lemma app_part_fields:
  "app_part s1 = app_part s \<Longrightarrow>
   target_weight s1 = target_weight s \<and> checkmark s1 = checkmark s
   \<and> display_value s1 = display_value s \<and> weight_buffer s1 = weight_buffer s
   \<and> bleMutex s1 = bleMutex s"
  by (simp add: app_part_def)

lemma read_fails_sentinel: "read_fails env s \<Longrightarrow> fst (internal_read_weight env s) = - 1"
  by (auto simp add: read_fails_def internal_read_weight_def Let_def)

lemma read_byte:
  "connected s \<Longrightarrow> characteristic_can canRead s \<Longrightarrow> read_result env = Some (b # bs) \<Longrightarrow>
   internal_read_weight env s = (b, ble_call ReadValue s)"
  by (simp add: internal_read_weight_def Let_def)

lemma write_and_verify_commit:
  assumes "internal_write_weight w env s = (True, s1)"
    and "internal_read_weight env (vTaskDelay (cb_before_verify env) s1) = (w, s2)"
  shows "write_and_verify w env s =
           (True, show_verification_checkmark
                    (update_display_value w (s2\<lparr>target_weight := w\<rparr>)))"
  using assms by (simp add: write_and_verify_def)

lemma write_and_verify_mismatch:
  assumes "internal_write_weight w env s = (True, s1)"
    and "internal_read_weight env (vTaskDelay (cb_before_verify env) s1) = (v, s2)"
    and "v \<noteq> w"
  shows "write_and_verify w env s =
           (False, update_ble_status BLE_STATUS_FAILED (hide_verification_checkmark s2))"
  using assms by (simp add: write_and_verify_def sint_eq8)

lemma write_and_verify_write_failed:
  assumes "internal_write_weight w env s = (False, s1)"
  shows "write_and_verify w env s =
           (False, update_ble_status BLE_STATUS_FAILED (hide_verification_checkmark s1))"
  using assms by (simp add: write_and_verify_def)

lemma write_verify_attempt_connected:
  assumes "take_ok env" and "connectToServer env (xSemaphoreTaken s) = (True, s1)"
    and "write_and_verify (weight_buffer s) env (vTaskDelay (cb_before_write env) s1) = (f, s2)"
  shows "write_verify_attempt env s =
           (f, xSemaphoreGive
                 (vTaskDelay (cb_after_disconnect env) (disconnectFromServer s2)))"
  using assms by (simp add: write_verify_attempt_def Let_def)

lemma app_part_after_release:
  "app_part (xSemaphoreGive (vTaskDelay cb (disconnectFromServer s)))
     = app_part (s\<lparr>bleMutex := False\<rparr>)"
proof -
  have "app_part (vTaskDelay cb (disconnectFromServer s)) = app_part s"
    by simp
  then show ?thesis
    by (simp add: app_part_def xSemaphoreGive_def)
qed

lemma write_verify_task_fields:
  assumes "write_verify_attempt env s = (f, s1)"
  shows "target_weight (write_verify_task env s) = target_weight s1
       \<and> checkmark (write_verify_task env s) = checkmark s1
       \<and> display_value (write_verify_task env s) = display_value s1
       \<and> status (write_verify_task env s)
           = (if f then BLE_STATUS_DISCONNECTED else status s1)"
  using assms by (simp add: write_verify_task_def Let_def update_ble_status_def)

lemma initial_read_loop_append:
  "initial_read_loop (pre @ rest) s =
     (if fst (initial_read_loop pre s) then initial_read_loop pre s
      else initial_read_loop rest (snd (initial_read_loop pre s)))"
proof (induction pre arbitrary: s)
  case Nil
  then show ?case by simp
next
  case (Cons env pre)
  obtain c s1 where c: "connectToServer env (xSemaphoreTaken s) = (c, s1)" by fastforce
  obtain v s2 where r: "internal_read_weight env s1 = (v, s2)" by fastforce
  show ?case using c r by (cases c) (simp_all add: Cons.IH Let_def)
qed

lemma initial_read_round_success:
  assumes "take_ok env" and "connectToServer env (xSemaphoreTaken s) = (True, s1)"
    and "internal_read_weight env s1 = (v, s2)" and "sint v \<noteq> - 1"
  shows "initial_read_loop (env # rest) s =
           (True, xSemaphoreGive
                    (update_ble_status BLE_STATUS_DISCONNECTED
                      (show_verification_checkmark
                        (update_display_value v
                          ((disconnectFromServer s2)\<lparr>target_weight := v\<rparr>)))))"
  using assms by (simp add: Let_def)

lemma initial_read_round_sentinel:
  assumes "take_ok env" and "connectToServer env (xSemaphoreTaken s) = (True, s1)"
    and "internal_read_weight env s1 = (- 1, s2)"
  shows "initial_read_loop (env # rest) s =
           initial_read_loop rest
             (vTaskDelay (cb_backoff env)
               (xSemaphoreGive
                 (update_ble_status BLE_STATUS_FAILED (disconnectFromServer s2))))"
  using assms by (simp add: Let_def)

lemma ble_log_disconnect:
  "ble_log (disconnectFromServer s)
     = ble_log s @ (if pClient s = Some True then [ClientDisconnect] else [])"
  by (simp add: disconnectFromServer_def client_disconnect_def ui_defs)

lemmas model_defs = connectToServer_def connect_client_def discover_def
  register_notifications_def client_disconnect_def disconnectFromServer_def
  internal_read_weight_def internal_write_weight_def characteristic_can_def
  write_and_verify_def write_verify_attempt_def write_verify_task_def initial_read_task_def
  xSemaphoreGive_def xSemaphoreTaken_def onConnect_def onDisconnect_def
  write_target_weight_def ble_perform_initial_read_def Let_def

section \<open>Peripheral link\<close>

text \<open>
  Claim C8. connect() called when the connection flag is already set is a no-op that
  returns true: the whole state is returned as it was, so no scan is logged, no Status
  is emitted, and the characteristic handle, the stored device and the connection flag
  are unchanged.
\<close>

theorem connectToServer_already_connected:
  assumes "connected s"
  shows "connectToServer env s = (True, s)"
  using assms by (simp add: connectToServer_def)

theorem connectToServer_already_connected_witness:
  "connected (onConnect boot_state)
   \<and> connectToServer (in_range (Some [40])) (onConnect boot_state)
       = (True, onConnect boot_state)"
  using connectToServer_already_connected [of "onConnect boot_state" "in_range (Some [40])"]
  by (simp add: onConnect_def update_ble_status_def)

text \<open>
  Claim C5, as stated: disconnect() called when already disconnected leaves Status as the
  caller set it and emits no Status transition. It fails: with Status Failed and no
  client, the call sets Status to Disconnected and emits that notification.
\<close>

theorem disconnect_keeps_status_counterexample:
  "\<not> connected (update_ble_status BLE_STATUS_FAILED boot_state)
   \<and> pClient (update_ble_status BLE_STATUS_FAILED boot_state) \<noteq> Some True
   \<and> status (disconnectFromServer (update_ble_status BLE_STATUS_FAILED boot_state))
       \<noteq> status (update_ble_status BLE_STATUS_FAILED boot_state)
   \<and> ui_log (disconnectFromServer (update_ble_status BLE_STATUS_FAILED boot_state))
       \<noteq> ui_log (update_ble_status BLE_STATUS_FAILED boot_state)"
  by (simp add: disconnectFromServer_def update_ble_status_def example_defs)

text \<open>
  Claim C5, amended. disconnect() called when the transport is not connected does not
  fail and requests no transport disconnect, but it always forces the local state:
  connection flag false, handle cleared, Status Disconnected, with one Status
  notification emitted whatever the caller had set. Calling it again changes nothing
  except for repeating that notification.
\<close>

theorem disconnect_when_disconnected:
  assumes "pClient s \<noteq> Some True"
  shows "disconnectFromServer s =
           update_ble_status BLE_STATUS_DISCONNECTED
             (s\<lparr>connected := False, pRemoteCharacteristic := None\<rparr>)
         \<and> ble_log (disconnectFromServer s) = ble_log s
         \<and> status (disconnectFromServer s) = BLE_STATUS_DISCONNECTED
         \<and> ui_log (disconnectFromServer s)
             = ui_log s @ [UpdateBleStatus BLE_STATUS_DISCONNECTED]
         \<and> disconnectFromServer (disconnectFromServer s) =
             update_ble_status BLE_STATUS_DISCONNECTED (disconnectFromServer s)"
  using assms by (simp add: disconnectFromServer_def update_ble_status_def)

theorem disconnect_when_disconnected_witness:
  "pClient (update_ble_status BLE_STATUS_FAILED boot_state) \<noteq> Some True
   \<and> status (disconnectFromServer (update_ble_status BLE_STATUS_FAILED boot_state))
       = BLE_STATUS_DISCONNECTED
   \<and> ble_log (disconnectFromServer (update_ble_status BLE_STATUS_FAILED boot_state)) = []
   \<and> ui_log (disconnectFromServer (update_ble_status BLE_STATUS_FAILED boot_state))
       = [UpdateBleStatus BLE_STATUS_DISCONNECTED, UpdateBleStatus BLE_STATUS_FAILED,
          UpdateBleStatus BLE_STATUS_DISCONNECTED]"
  using disconnect_when_disconnected [of "update_ble_status BLE_STATUS_FAILED boot_state"]
  by (simp add: update_ble_status_def example_defs)

text \<open>
  Claim C7. When connect() runs a scan that started, the device stored for the connection
  is the first of the results, in result order, that advertises the service identifier;
  when no result advertises it, connect() returns false with Status Failed and no stored
  device.
\<close>

theorem connect_selects_first_advertiser:
  assumes "\<not> connected s" and "scan_results env = Some results"
  shows "(\<forall>pre d post. results = pre @ d # post
            \<and> (\<forall>x\<in>set pre. \<not> isAdvertisingService x serviceUUID)
            \<and> isAdvertisingService d serviceUUID
          \<longrightarrow> myDevice (snd (connectToServer env s)) = Some d)
       \<and> ((\<forall>x\<in>set results. \<not> isAdvertisingService x serviceUUID)
          \<longrightarrow> fst (connectToServer env s) = False
            \<and> status (snd (connectToServer env s)) = BLE_STATUS_FAILED
            \<and> myDevice (snd (connectToServer env s)) = None)"
proof (intro conjI allI impI)
  fix pre d post
  assume "results = pre @ d # post
            \<and> (\<forall>x\<in>set pre. \<not> isAdvertisingService x serviceUUID)
            \<and> isAdvertisingService d serviceUUID"
  then have "scan_loop results None = Some d"
    by (simp add: scan_loop_first)
  with assms show "myDevice (snd (connectToServer env s)) = Some d"
    by (simp add: connectToServer_def Let_def ui_defs myDevice_connect_client)
next
  assume "\<forall>x\<in>set results. \<not> isAdvertisingService x serviceUUID"
  then have n: "scan_loop results None = None"
    by (rule scan_loop_none)
  with assms show "fst (connectToServer env s) = False"
    by (simp add: connectToServer_def Let_def ui_defs)
  from n assms show "status (snd (connectToServer env s)) = BLE_STATUS_FAILED"
    by (simp add: connectToServer_def Let_def ui_defs)
  from n assms show "myDevice (snd (connectToServer env s)) = None"
    by (simp add: connectToServer_def Let_def ui_defs)
qed

theorem connect_selects_first_advertiser_witness:
  "\<not> connected boot_state
   \<and> scan_results (in_range (Some [40]))
       = Some [heart_rate_strap, shot_stopper, second_shot_stopper]
   \<and> \<not> isAdvertisingService heart_rate_strap serviceUUID
   \<and> isAdvertisingService shot_stopper serviceUUID
   \<and> isAdvertisingService second_shot_stopper serviceUUID
   \<and> myDevice (snd (connectToServer (in_range (Some [40])) boot_state)) = Some shot_stopper
   \<and> scan_results absent = Some [heart_rate_strap]
   \<and> fst (connectToServer absent boot_state) = False
   \<and> status (snd (connectToServer absent boot_state)) = BLE_STATUS_FAILED
   \<and> myDevice (snd (connectToServer absent boot_state)) = None"
proof -
  have a: "\<not> connected boot_state"
    by (simp add: example_defs ui_defs)
  have b: "scan_results (in_range (Some [40]))
             = Some [heart_rate_strap, shot_stopper, second_shot_stopper]"
    by (simp add: in_range_def)
  have c: "scan_results absent = Some [heart_rate_strap]"
    by (simp add: absent_def)
  have d: "\<not> isAdvertisingService heart_rate_strap serviceUUID"
    by (simp add: example_defs)
  have e: "isAdvertisingService shot_stopper serviceUUID"
    "isAdvertisingService second_shot_stopper serviceUUID"
    by (simp_all add: example_defs)
  from connect_selects_first_advertiser [OF a b] d e
  have "myDevice (snd (connectToServer (in_range (Some [40])) boot_state)) = Some shot_stopper"
    by (elim conjE allE [of _ "[heart_rate_strap]"] allE [of _ shot_stopper]
        allE [of _ "[second_shot_stopper]"]) simp
  moreover from connect_selects_first_advertiser [OF a c] d
  have "fst (connectToServer absent boot_state) = False
        \<and> status (snd (connectToServer absent boot_state)) = BLE_STATUS_FAILED
        \<and> myDevice (snd (connectToServer absent boot_state)) = None"
    by simp
  ultimately show ?thesis using a b c d e by simp
qed

section \<open>Rotary encoder and Target Value\<close>

text \<open>
  Claim C10. Target Value is a signed 8-bit integer that the knob handlers increment and
  decrement without a guard: after \<open>n\<close> turns on the Shot Stopper screen its signed value
  is the old one plus or minus \<open>n\<close>, wrapped modulo \<open>2^8\<close> into \<open>-128..127\<close> (so 127
  goes to -128 and 0 goes to -1). The value shown is the wrapped value itself, and the
  debounce timer passes it as it is to the write request, which stores it as the value
  to write.
\<close>

theorem knob_wraps_unclamped:
  "sint (target_weight ((knob_right_cb screen_shot_stopper ^^ n) s))
     = (sint (target_weight s) + int n + 128) mod 256 - 128
   \<and> sint (target_weight ((knob_left_cb screen_shot_stopper ^^ n) s))
     = (sint (target_weight s) - int n + 128) mod 256 - 128
   \<and> display_value (knob_right_cb screen_shot_stopper s)
     = Some (target_weight (knob_right_cb screen_shot_stopper s))
   \<and> display_value (knob_left_cb screen_shot_stopper s)
     = Some (target_weight (knob_left_cb screen_shot_stopper s))
   \<and> (\<not> writeTaskHandle s \<and> \<not> initialReadTaskHandle s
      \<longrightarrow> weight_buffer (ble_write_timer_callback created s) = target_weight s)"
proof (intro conjI impI)
  show "sint (target_weight ((knob_right_cb screen_shot_stopper ^^ n) s))
          = (sint (target_weight s) + int n + 128) mod 256 - 128"
    by (simp only: tw_right_n sint_word_of_int8)
  show "sint (target_weight ((knob_left_cb screen_shot_stopper ^^ n) s))
          = (sint (target_weight s) - int n + 128) mod 256 - 128"
    by (simp only: tw_left_n sint_word_of_int8)
  show "display_value (knob_right_cb screen_shot_stopper s)
          = Some (target_weight (knob_right_cb screen_shot_stopper s))"
    by (simp add: knob_right_cb_def knob_turned_def Let_def reset_inactivity_timer_def
        xTimerReset_def ui_defs)
  show "display_value (knob_left_cb screen_shot_stopper s)
          = Some (target_weight (knob_left_cb screen_shot_stopper s))"
    by (simp add: knob_left_cb_def knob_turned_def Let_def reset_inactivity_timer_def
        xTimerReset_def ui_defs)
next
  assume "\<not> writeTaskHandle s \<and> \<not> initialReadTaskHandle s"
  then show "weight_buffer (ble_write_timer_callback created s) = target_weight s"
    by (simp add: ble_write_timer_callback_def write_target_weight_def Let_def ui_defs)
qed

theorem knob_wraps_unclamped_witness:
  "sint (target_weight (knob_right_cb screen_shot_stopper (boot_state\<lparr>target_weight := 127\<rparr>)))
     = - 128
   \<and> sint (target_weight (knob_left_cb screen_shot_stopper (boot_state\<lparr>target_weight := 0\<rparr>)))
     = - 1
   \<and> display_value (knob_left_cb screen_shot_stopper (boot_state\<lparr>target_weight := 0\<rparr>))
     = Some (- 1)
   \<and> \<not> writeTaskHandle (knob_left_cb screen_shot_stopper (boot_state\<lparr>target_weight := 0\<rparr>))
   \<and> \<not> initialReadTaskHandle
         (knob_left_cb screen_shot_stopper (boot_state\<lparr>target_weight := 0\<rparr>))
   \<and> weight_buffer (ble_write_timer_callback True
         (knob_left_cb screen_shot_stopper (boot_state\<lparr>target_weight := 0\<rparr>))) = - 1"
proof -
  have t: "target_weight (knob_left_cb screen_shot_stopper (boot_state\<lparr>target_weight := 0\<rparr>))
             = - 1"
    by (simp add: tw_left)
  have h: "\<not> writeTaskHandle (knob_left_cb screen_shot_stopper (boot_state\<lparr>target_weight := 0\<rparr>))
           \<and> \<not> initialReadTaskHandle
                 (knob_left_cb screen_shot_stopper (boot_state\<lparr>target_weight := 0\<rparr>))"
    by (simp add: knob_left_cb_def knob_turned_def Let_def reset_inactivity_timer_def
        xTimerReset_def ui_defs example_defs)
  from knob_wraps_unclamped [of 1 "boot_state\<lparr>target_weight := 127\<rparr>"]
  have 1: "sint (target_weight (knob_right_cb screen_shot_stopper
             (boot_state\<lparr>target_weight := 127\<rparr>))) = - 128"
    by simp
  from knob_wraps_unclamped [of 1 "boot_state\<lparr>target_weight := 0\<rparr>"]
  have 2: "sint (target_weight (knob_left_cb screen_shot_stopper
             (boot_state\<lparr>target_weight := 0\<rparr>))) = - 1"
    and 3: "display_value (knob_left_cb screen_shot_stopper (boot_state\<lparr>target_weight := 0\<rparr>))
             = Some (- 1)"
    by (simp_all add: t)
  from knob_wraps_unclamped
    [of 0 "knob_left_cb screen_shot_stopper (boot_state\<lparr>target_weight := 0\<rparr>)" True] h
  have 4: "weight_buffer (ble_write_timer_callback True
         (knob_left_cb screen_shot_stopper (boot_state\<lparr>target_weight := 0\<rparr>))) = - 1"
    by (simp add: t)
  from 1 2 3 4 h show ?thesis by simp
qed

section \<open>Task coordinator\<close>

text \<open>
  Claim C6, as stated: a write request that arrives while another operation is in flight
  is rejected and the rejection is shown to the UI through Status and the verified
  indicator. It fails: with the initial read in flight and the verified indicator shown,
  the rejected request returns the state as it was, with no call to the display module.
\<close>

theorem rejected_write_feedback_counterexample:
  "initialReadTaskHandle (ble_perform_initial_read True (show_verification_checkmark boot_state))
   \<and> ui_log (write_target_weight True 50
               (ble_perform_initial_read True (show_verification_checkmark boot_state)))
       = ui_log (ble_perform_initial_read True (show_verification_checkmark boot_state))
   \<and> checkmark (write_target_weight True 50
               (ble_perform_initial_read True (show_verification_checkmark boot_state)))
   \<and> status (write_target_weight True 50
               (ble_perform_initial_read True (show_verification_checkmark boot_state)))
       = BLE_STATUS_DISCONNECTED"
  by (simp add: write_target_weight_def ble_perform_initial_read_def ui_defs example_defs)

text \<open>
  Claim C6, amended. A write request that arrives while a write task or the initial read
  is in flight is rejected without being queued and without any feedback to the UI: the
  whole state is returned as it was, so no task is created, the value is not stored, and
  Status, the verified indicator and the log of display calls are unchanged.
\<close>

theorem rejected_write_is_silent:
  assumes "writeTaskHandle s \<or> initialReadTaskHandle s"
  shows "write_target_weight created weight s = s"
  using assms by (simp add: write_target_weight_def)

theorem rejected_write_is_silent_witness:
  "(writeTaskHandle (write_target_weight True 45 boot_state)
      \<or> initialReadTaskHandle (write_target_weight True 45 boot_state))
   \<and> write_target_weight True 50 (write_target_weight True 45 boot_state)
       = write_target_weight True 45 boot_state"
proof -
  have h: "writeTaskHandle (write_target_weight True 45 boot_state)
           \<or> initialReadTaskHandle (write_target_weight True 45 boot_state)"
    by (simp add: write_target_weight_def Let_def ui_defs example_defs)
  from rejected_write_is_silent [OF h, of True 50] h show ?thesis by simp
qed

text \<open>
  Claim C3, as stated: at every instant at most one operation request is active. It
  fails: the initial-read entry point looks only at its own handle, so an initial read
  requested while a write task is in flight is spawned, and two requests are active.
\<close>

theorem one_operation_counterexample:
  "\<not> operations_active (fold step [RequestWrite True 45, RequestInitialRead True] boot_state)
       \<le> 1"
  by (simp add: operations_active_def write_target_weight_def ble_perform_initial_read_def
      Let_def ui_defs example_defs)

text \<open>
  Claim C3, amended. Along every sequence of coordinator events from a state that
  satisfies the bookkeeping invariant, at most one write task and at most one initial
  read task are live, and each handle is set exactly when its task is live. A write
  request issued while a write task or the initial read is in flight is rejected without
  being queued (the state is unchanged), and a repeated initial-read request while one
  is running spawns no second instance (the state is unchanged). An initial-read request
  issued while a write task is in flight and no initial read is running is not refused:
  when the task can be created it is spawned, the write task stays live, and two
  operation requests are then active.
\<close>

theorem coordinator_invariant:
  assumes "coordinator_inv s0"
  shows "coordinator_inv (fold step evs s0)
       \<and> (writeTaskHandle s \<or> initialReadTaskHandle s
          \<longrightarrow> step (RequestWrite created w) s = s)
       \<and> (initialReadTaskHandle s \<longrightarrow> step (RequestInitialRead created) s = s)
       \<and> (writeTaskHandle t \<and> \<not> initialReadTaskHandle t
          \<longrightarrow> writeTaskHandle (step (RequestInitialRead True) t)
            \<and> initialReadTaskHandle (step (RequestInitialRead True) t)
            \<and> write_tasks (step (RequestInitialRead True) t) = write_tasks t
            \<and> initial_read_tasks (step (RequestInitialRead True) t)
                = initial_read_tasks t + 1)
       \<and> (coordinator_inv t \<and> writeTaskHandle t \<and> \<not> initialReadTaskHandle t
          \<longrightarrow> coordinator_inv (step (RequestInitialRead True) t)
            \<and> operations_active (step (RequestInitialRead True) t) = 2)"
proof (intro conjI impI)
  show "coordinator_inv (fold step evs s0)"
    using assms by (rule fold_step_coordinator_inv)
next
  assume "writeTaskHandle s \<or> initialReadTaskHandle s"
  then show "step (RequestWrite created w) s = s"
    by (simp add: write_target_weight_def)
next
  assume "initialReadTaskHandle s"
  then show "step (RequestInitialRead created) s = s"
    by (simp add: ble_perform_initial_read_def)
next
  assume h: "writeTaskHandle t \<and> \<not> initialReadTaskHandle t"
  then show "writeTaskHandle (step (RequestInitialRead True) t)"
    and "initialReadTaskHandle (step (RequestInitialRead True) t)"
    and "write_tasks (step (RequestInitialRead True) t) = write_tasks t"
    and "initial_read_tasks (step (RequestInitialRead True) t) = initial_read_tasks t + 1"
    by (simp_all add: ble_perform_initial_read_def)
next
  assume h: "coordinator_inv t \<and> writeTaskHandle t \<and> \<not> initialReadTaskHandle t"
  then show "coordinator_inv (step (RequestInitialRead True) t)"
    by (blast intro: step_coordinator_inv)
  from h show "operations_active (step (RequestInitialRead True) t) = 2"
    by (auto simp add: operations_active_def coordinator_inv_def
        ble_perform_initial_read_def)
qed

theorem coordinator_invariant_witness:
  "coordinator_inv boot_state
   \<and> coordinator_inv
       (fold step [RequestWrite True 45, RequestWrite True 50, RequestInitialRead True,
                   RequestInitialRead True, WriteTaskRuns (in_range (Some [45]))] boot_state)
   \<and> initialReadTaskHandle (ble_perform_initial_read True boot_state)
   \<and> step (RequestInitialRead True) (ble_perform_initial_read True boot_state)
       = ble_perform_initial_read True boot_state
   \<and> step (RequestWrite True 50) (ble_perform_initial_read True boot_state)
       = ble_perform_initial_read True boot_state
   \<and> coordinator_inv (write_target_weight True 45 boot_state)
   \<and> writeTaskHandle (write_target_weight True 45 boot_state)
   \<and> \<not> initialReadTaskHandle (write_target_weight True 45 boot_state)
   \<and> initialReadTaskHandle
         (step (RequestInitialRead True) (write_target_weight True 45 boot_state))
   \<and> writeTaskHandle
         (step (RequestInitialRead True) (write_target_weight True 45 boot_state))
   \<and> operations_active
         (step (RequestInitialRead True) (write_target_weight True 45 boot_state)) = 2"
proof -
  have h: "coordinator_inv boot_state"
    by (simp add: coordinator_inv_def example_defs ui_defs)
  have i: "initialReadTaskHandle (ble_perform_initial_read True boot_state)"
    by (simp add: ble_perform_initial_read_def example_defs ui_defs)
  have j: "coordinator_inv (write_target_weight True 45 boot_state)"
    and k: "writeTaskHandle (write_target_weight True 45 boot_state)"
    and l: "\<not> initialReadTaskHandle (write_target_weight True 45 boot_state)"
    by (simp_all add: coordinator_inv_def write_target_weight_def Let_def example_defs
        ui_defs)
  from coordinator_invariant [OF h,
      where evs = "[RequestWrite True 45, RequestWrite True 50, RequestInitialRead True,
                   RequestInitialRead True, WriteTaskRuns (in_range (Some [45]))]"
        and s = "ble_perform_initial_read True boot_state"
        and t = "write_target_weight True 45 boot_state"] h i j k l
  show ?thesis by blast
qed

section \<open>InitialRead\<close>

text \<open>
  Claim C4. The retry loop of the initial read ends at its first successful round: when
  the rounds before it have all failed, and in this round the mutex is taken, connect()
  succeeds and the read returns a value other than the error value, the task returns.
  It has committed the value read as Target Value, shown it with the verified indicator,
  set Status to Disconnected, released the mutex and cleared its handle. After the read,
  the only call to the BLE stack is the disconnect, and the rounds that the
  environment would still offer are never used: no further scan or connect is made.
\<close>

theorem initial_read_stops_at_first_success:
  assumes "initial_read_loop pre (vTaskDelay cb_boot s) = (False, s0)"
    and "take_ok env"
    and "connectToServer env (xSemaphoreTaken s0) = (True, s1)"
    and "internal_read_weight env s1 = (v, s2)"
    and "sint v \<noteq> - 1"
  shows "\<exists>s'. initial_read_task cb_boot (pre @ env # rest) s = Some s'
          \<and> target_weight s' = v \<and> display_value s' = Some v \<and> checkmark s'
          \<and> status s' = BLE_STATUS_DISCONNECTED \<and> \<not> bleMutex s'
          \<and> \<not> initialReadTaskHandle s'
          \<and> ble_log s'
              = ble_log s2 @ (if pClient s2 = Some True then [ClientDisconnect] else [])
          \<and> initial_read_task cb_boot (pre @ env # rest) s
              = initial_read_task cb_boot (pre @ [env]) s"
proof -
  let ?done = "xSemaphoreGive
                 (update_ble_status BLE_STATUS_DISCONNECTED
                   (show_verification_checkmark
                     (update_display_value v
                       ((disconnectFromServer s2)\<lparr>target_weight := v\<rparr>))))"
  have round: "initial_read_loop (env # more) s0 = (True, ?done)" for more
    using assms(2-5) by (rule initial_read_round_success)
  have loop: "initial_read_loop (pre @ env # more) (vTaskDelay cb_boot s) = (True, ?done)"
    for more
    using assms(1) round [of more] by (simp add: initial_read_loop_append)
  let ?final = "?done\<lparr>initialReadTaskHandle := False,
                      initial_read_tasks := initial_read_tasks ?done - 1\<rparr>"
  have task: "initial_read_task cb_boot (pre @ env # more) s = Some ?final" for more
    using loop [of more] by (simp add: initial_read_task_def)
  have log: "ble_log ?final
               = ble_log s2 @ (if pClient s2 = Some True then [ClientDisconnect] else [])"
    using ble_log_disconnect [of s2] by (simp add: xSemaphoreGive_def ui_defs)
  have fields: "target_weight ?final = v \<and> display_value ?final = Some v
      \<and> checkmark ?final \<and> status ?final = BLE_STATUS_DISCONNECTED
      \<and> \<not> bleMutex ?final \<and> \<not> initialReadTaskHandle ?final"
    by (simp add: xSemaphoreGive_def ui_defs)
  from task [of rest] task [of "[]"] fields log show ?thesis
    by simp
qed

theorem initial_read_stops_at_first_success_witness:
  "fst (initial_read_loop [absent, in_range (Some [255])]
          (vTaskDelay None (ble_perform_initial_read True boot_state))) = False
   \<and> take_ok (in_range (Some [40]))
   \<and> sint (40 :: int8_t) \<noteq> - 1
   \<and> (\<exists>s'. initial_read_task None
              [absent, in_range (Some [255]), in_range (Some [40]), absent, in_range (Some [41])]
              (ble_perform_initial_read True boot_state) = Some s'
          \<and> target_weight s' = 40 \<and> checkmark s' \<and> status s' = BLE_STATUS_DISCONNECTED
          \<and> \<not> bleMutex s' \<and> \<not> initialReadTaskHandle s')"
proof -
  let ?S = "ble_perform_initial_read True boot_state"
  let ?pre = "[absent, in_range (Some [255])]"
  let ?env = "in_range (Some [40])"
  let ?s0 = "snd (initial_read_loop ?pre (vTaskDelay None ?S))"
  let ?s1 = "snd (connectToServer ?env (xSemaphoreTaken ?s0))"
  let ?s2 = "snd (internal_read_weight ?env ?s1)"
  have f0: "fst (initial_read_loop ?pre (vTaskDelay None ?S)) = False"
    by (simp add: model_defs example_defs ui_defs)
  then have a: "initial_read_loop ?pre (vTaskDelay None ?S) = (False, ?s0)"
    by (simp add: prod_eq_iff)
  have b: "take_ok ?env"
    by (simp add: in_range_def)
  have "fst (connectToServer ?env (xSemaphoreTaken ?s0)) = True"
    by (simp add: model_defs example_defs ui_defs)
  then have c: "connectToServer ?env (xSemaphoreTaken ?s0) = (True, ?s1)"
    by (simp add: prod_eq_iff)
  have "fst (internal_read_weight ?env ?s1) = 40"
    by (simp add: model_defs example_defs ui_defs)
  then have d: "internal_read_weight ?env ?s1 = (40, ?s2)"
    by (simp add: prod_eq_iff)
  have e: "sint (40 :: int8_t) \<noteq> - 1"
    by simp
  from initial_read_stops_at_first_success [OF a b c d e, of "[absent, in_range (Some [41])]"]
    f0 b e
  show ?thesis by auto
qed
section \<open>WriteVerify\<close>

text \<open>What a write task that took the mutex and connected does to Target Value and to the
  verified indicator, in terms of what the two primitives return.\<close>

lemma write_verify_outcome:
  assumes "take_ok env" and "connectToServer env (xSemaphoreTaken s) = (True, s1)"
    and "internal_write_weight (weight_buffer s) env (vTaskDelay (cb_before_write env) s1)
           = (wok, s2)"
    and "internal_read_weight env (vTaskDelay (cb_before_verify env) s2) = (v, s3)"
  shows "(wok \<and> v = weight_buffer s
            \<longrightarrow> target_weight (write_verify_task env s) = weight_buffer s
              \<and> checkmark (write_verify_task env s))
       \<and> (\<not> (wok \<and> v = weight_buffer s)
            \<longrightarrow> target_weight (write_verify_task env s) = target_weight s
              \<and> \<not> checkmark (write_verify_task env s))"
proof -
  let ?w = "weight_buffer s"
  let ?s1 = "vTaskDelay (cb_before_write env) s1"
  obtain f s4 where wv: "write_and_verify ?w env ?s1 = (f, s4)" by fastforce
  let ?end = "xSemaphoreGive (vTaskDelay (cb_after_disconnect env) (disconnectFromServer s4))"
  have att: "write_verify_attempt env s = (f, ?end)"
    using assms(1,2) wv by (rule write_verify_attempt_connected)
  have "app_part ?end = app_part (s4\<lparr>bleMutex := False\<rparr>)"
    by (rule app_part_after_release)
  then have e: "target_weight ?end = target_weight s4 \<and> checkmark ?end = checkmark s4"
    by (simp add: app_part_def)
  have t: "target_weight (write_verify_task env s) = target_weight s4
           \<and> checkmark (write_verify_task env s) = checkmark s4"
    using write_verify_task_fields [OF att] e by simp
  have "app_part s1 = app_part (xSemaphoreTaken s)"
    using app_part_connectToServer [of env "xSemaphoreTaken s"] assms(2) by simp
  then have p1: "target_weight s1 = target_weight s"
    by (simp add: app_part_def xSemaphoreTaken_def)
  have "app_part s2 = app_part ?s1"
    using app_part_write [of ?w env ?s1] assms(3) by simp
  then have p2: "target_weight s2 = target_weight s"
    using p1 app_part_fields [of ?s1 s1] app_part_fields [of s2 ?s1] by simp
  have "app_part s3 = app_part (vTaskDelay (cb_before_verify env) s2)"
    using app_part_read [of env "vTaskDelay (cb_before_verify env) s2"] assms(4) by simp
  then have p3: "target_weight s3 = target_weight s"
    using p2 app_part_fields [of "vTaskDelay (cb_before_verify env) s2" s2]
      app_part_fields [of s3 "vTaskDelay (cb_before_verify env) s2"] by simp
  show ?thesis
  proof (cases wok)
    case False
    with assms(3) have "write_and_verify ?w env ?s1
        = (False, update_ble_status BLE_STATUS_FAILED (hide_verification_checkmark s2))"
      by (simp add: write_and_verify_write_failed)
    with wv t p2 False show ?thesis
      by (auto simp add: ui_defs)
  next
    case True
    show ?thesis
    proof (cases "v = ?w")
      case same: True
      from assms(3,4) True same have "write_and_verify ?w env ?s1
          = (True, show_verification_checkmark
                     (update_display_value ?w (s3\<lparr>target_weight := ?w\<rparr>)))"
        by (simp add: write_and_verify_commit)
      with wv t True same show ?thesis
        by (auto simp add: ui_defs)
    next
      case differ: False
      from assms(3,4) True differ have "write_and_verify ?w env ?s1
          = (False, update_ble_status BLE_STATUS_FAILED (hide_verification_checkmark s3))"
        by (simp add: write_and_verify_mismatch)
      with wv t p3 differ show ?thesis
        by (auto simp add: ui_defs)
    qed
  qed
qed

text \<open>Status at the end of a write task that took the mutex and connected: the
  unconditional disconnect has set it to Disconnected, whatever the branches before it
  had set.\<close>

lemma status_after_release:
  "cb \<noteq> Some OnConnect \<Longrightarrow>
   status (xSemaphoreGive (vTaskDelay cb (disconnectFromServer s))) = BLE_STATUS_DISCONNECTED"
  by (cases "(cb, disconnectFromServer s)" rule: vTaskDelay.cases)
    (simp_all add: xSemaphoreGive_def disconnectFromServer_def onDisconnect_def Let_def
      ui_defs)

lemma write_task_status_after_connect:
  assumes "take_ok env" and "connectToServer env (xSemaphoreTaken s) = (True, s1)"
    and "cb_after_disconnect env \<noteq> Some OnConnect"
  shows "status (write_verify_task env s) = BLE_STATUS_DISCONNECTED"
proof -
  obtain f s4 where wv:
    "write_and_verify (weight_buffer s) env (vTaskDelay (cb_before_write env) s1) = (f, s4)"
    by fastforce
  have att: "write_verify_attempt env s =
      (f, xSemaphoreGive (vTaskDelay (cb_after_disconnect env) (disconnectFromServer s4)))"
    using assms(1,2) wv by (rule write_verify_attempt_connected)
  from write_verify_task_fields [OF att] status_after_release [OF assms(3), of s4]
  show ?thesis by simp
qed

text \<open>
  Claim C1, at the input where the code departs from it: the value to write is -1 (the
  knob turned left from 0), the write is acknowledged, and the read-back throws. The
  claim says Target Value stays 36 and the verified indicator is off; the task commits
  -1 and shows the indicator.
\<close>

theorem failed_read_back_is_committed:
  "target_weight (write_target_weight True (- 1) boot_state) = 36
   \<and> weight_buffer (write_target_weight True (- 1) boot_state) = - 1
   \<and> write_result (in_range None) = Some True
   \<and> read_result (in_range None) = None
   \<and> target_weight (write_verify_task (in_range None)
        (write_target_weight True (- 1) boot_state)) = - 1
   \<and> checkmark (write_verify_task (in_range None)
        (write_target_weight True (- 1) boot_state))"
  by (simp add: model_defs example_defs ui_defs)

text \<open>
  Claim C2, at the input where the code departs from it: the value 50 is written and
  acknowledged, and the read-back returns 48. The task does not succeed, Target Value
  stays 36 and the verified indicator is off, as the claim says; but Status at the end
  of the task is Disconnected, not Failed, with or without the disconnect callback.
\<close>

theorem mismatch_ends_disconnected:
  "fst (write_verify_attempt (in_range (Some [48])) (write_target_weight True 50 boot_state))
     = False
   \<and> target_weight (write_verify_task (in_range (Some [48]))
        (write_target_weight True 50 boot_state)) = 36
   \<and> \<not> checkmark (write_verify_task (in_range (Some [48]))
        (write_target_weight True 50 boot_state))
   \<and> status (write_verify_task (in_range (Some [48]))
        (write_target_weight True 50 boot_state)) = BLE_STATUS_DISCONNECTED
   \<and> status (write_verify_task ((in_range (Some [48]))\<lparr>cb_after_disconnect := None\<rparr>)
        (write_target_weight True 50 boot_state)) = BLE_STATUS_DISCONNECTED
   \<and> BLE_STATUS_DISCONNECTED \<noteq> BLE_STATUS_FAILED"
  by (simp add: model_defs example_defs ui_defs)
section \<open>The error value of the read primitive\<close>

text \<open>
  Claim C9. The read primitive answers -1 for every error (not connected or not
  readable, an exception, no data), and -1 is also what the byte 0xFF reads as. So: a
  write task for the value -1 whose write is acknowledged and whose read-back fails
  finds the two equal, commits -1 as Target Value and shows the verified indicator,
  with overall success; and a round of the initial read that connects and reads the
  byte 0xFF is treated as a failed read: the loop does not leave in that round, Target
  Value is unchanged, Status Failed is set after the disconnect, and the loop goes on
  with the next round.
\<close>

theorem read_error_value_is_a_payload:
  "(read_fails env s \<longrightarrow> sint (fst (internal_read_weight env s)) = - 1)
   \<and> (connected s \<and> characteristic_can canRead s \<and> read_result env = Some (255 # bs)
      \<longrightarrow> sint (fst (internal_read_weight env s)) = - 1)
   \<and> (weight_buffer s = - 1 \<and> take_ok env
        \<and> connectToServer env (xSemaphoreTaken s) = (True, s1)
        \<and> internal_write_weight (- 1) env (vTaskDelay (cb_before_write env) s1) = (True, s2)
        \<and> read_fails env (vTaskDelay (cb_before_verify env) s2)
      \<longrightarrow> fst (write_verify_attempt env s)
        \<and> target_weight (write_verify_task env s) = - 1
        \<and> display_value (write_verify_task env s) = Some (- 1)
        \<and> checkmark (write_verify_task env s))
   \<and> (take_ok env \<and> connectToServer env (xSemaphoreTaken s) = (True, s1)
        \<and> connected s1 \<and> characteristic_can canRead s1
        \<and> read_result env = Some (255 # bs)
      \<longrightarrow> initial_read_loop [env] s =
            (False,
             vTaskDelay (cb_backoff env)
               (xSemaphoreGive
                 (update_ble_status BLE_STATUS_FAILED
                   (disconnectFromServer (ble_call ReadValue s1)))))
        \<and> target_weight (snd (initial_read_loop [env] s)) = target_weight s
        \<and> initial_read_loop (env # rest) s
            = initial_read_loop rest (snd (initial_read_loop [env] s)))"
proof (intro conjI impI)
  assume "read_fails env s"
  then show "sint (fst (internal_read_weight env s)) = - 1"
    by (simp add: read_fails_sentinel)
next
  assume "connected s \<and> characteristic_can canRead s \<and> read_result env = Some (255 # bs)"
  then show "sint (fst (internal_read_weight env s)) = - 1"
    by (simp add: read_byte)
next
  assume h: "weight_buffer s = - 1 \<and> take_ok env
        \<and> connectToServer env (xSemaphoreTaken s) = (True, s1)
        \<and> internal_write_weight (- 1) env (vTaskDelay (cb_before_write env) s1) = (True, s2)
        \<and> read_fails env (vTaskDelay (cb_before_verify env) s2)"
  let ?s2 = "vTaskDelay (cb_before_verify env) s2"
  let ?s3 = "snd (internal_read_weight env ?s2)"
  let ?s4 = "show_verification_checkmark
               (update_display_value (- 1) (?s3\<lparr>target_weight := - 1\<rparr>))"
  let ?end = "xSemaphoreGive (vTaskDelay (cb_after_disconnect env) (disconnectFromServer ?s4))"
  from h have "fst (internal_read_weight env ?s2) = - 1"
    by (simp add: read_fails_sentinel)
  then have r: "internal_read_weight env ?s2 = (- 1, ?s3)"
    by (simp add: prod_eq_iff)
  from h r have "write_and_verify (- 1) env (vTaskDelay (cb_before_write env) s1) = (True, ?s4)"
    by (simp add: write_and_verify_commit)
  with h have att: "write_verify_attempt env s = (True, ?end)"
    by (simp add: write_verify_attempt_connected)
  have "app_part ?end = app_part (?s4\<lparr>bleMutex := False\<rparr>)"
    by (rule app_part_after_release)
  then have e: "target_weight ?end = - 1 \<and> display_value ?end = Some (- 1) \<and> checkmark ?end"
    by (simp add: app_part_def ui_defs)
  from att show "fst (write_verify_attempt env s)"
    by simp
  from write_verify_task_fields [OF att] e
  show "target_weight (write_verify_task env s) = - 1"
    and "display_value (write_verify_task env s) = Some (- 1)"
    and "checkmark (write_verify_task env s)"
    by simp_all
next
  assume h: "take_ok env \<and> connectToServer env (xSemaphoreTaken s) = (True, s1)
        \<and> connected s1 \<and> characteristic_can canRead s1
        \<and> read_result env = Some (255 # bs)"
  let ?after = "vTaskDelay (cb_backoff env)
               (xSemaphoreGive
                 (update_ble_status BLE_STATUS_FAILED
                   (disconnectFromServer (ble_call ReadValue s1))))"
  from h have r: "internal_read_weight env s1 = (- 1, ble_call ReadValue s1)"
    by (simp add: read_byte)
  from h r have round: "initial_read_loop (env # more) s = initial_read_loop more ?after"
    for more
    by (simp add: initial_read_round_sentinel)
  from round [of "[]"] show one: "initial_read_loop [env] s = (False, ?after)"
    by simp
  from round [of rest] one
  show "initial_read_loop (env # rest) s
          = initial_read_loop rest (snd (initial_read_loop [env] s))"
    by simp
  have "app_part s1 = app_part (xSemaphoreTaken s)"
    using app_part_connectToServer [of env "xSemaphoreTaken s"] h by simp
  then have "target_weight s1 = target_weight s"
    by (simp add: app_part_def xSemaphoreTaken_def)
  moreover
  let ?failed = "update_ble_status BLE_STATUS_FAILED
                   (disconnectFromServer (ble_call ReadValue s1))"
  have "app_part ?after = app_part (xSemaphoreGive ?failed)"
    by simp
  then have "target_weight ?after = target_weight (xSemaphoreGive ?failed)"
    by (simp add: app_part_def)
  moreover have "app_part ?failed = app_part s1"
    by simp
  then have "target_weight (xSemaphoreGive ?failed) = target_weight s1"
    by (simp add: app_part_def xSemaphoreGive_def)
  ultimately show "target_weight (snd (initial_read_loop [env] s)) = target_weight s"
    using one by simp
qed

theorem read_error_value_is_a_payload_witness:
  "weight_buffer (write_target_weight True (- 1) boot_state) = - 1
   \<and> take_ok (in_range None)
   \<and> fst (connectToServer (in_range None)
            (xSemaphoreTaken (write_target_weight True (- 1) boot_state)))
   \<and> read_result (in_range None) = None
   \<and> target_weight (write_verify_task (in_range None)
        (write_target_weight True (- 1) boot_state)) = - 1
   \<and> checkmark (write_verify_task (in_range None)
        (write_target_weight True (- 1) boot_state))
   \<and> take_ok (in_range (Some [255]))
   \<and> fst (connectToServer (in_range (Some [255]))
            (xSemaphoreTaken (ble_perform_initial_read True boot_state)))
   \<and> read_result (in_range (Some [255])) = Some [255]
   \<and> fst (initial_read_loop [in_range (Some [255])] (ble_perform_initial_read True boot_state))
       = False
   \<and> target_weight (snd (initial_read_loop [in_range (Some [255])]
        (ble_perform_initial_read True boot_state))) = 36"
proof -
  let ?W = "write_target_weight True (- 1) boot_state"
  let ?envW = "in_range None"
  let ?w1 = "snd (connectToServer ?envW (xSemaphoreTaken ?W))"
  let ?w2 = "snd (internal_write_weight (- 1) ?envW (vTaskDelay (cb_before_write ?envW) ?w1))"
  have a1: "weight_buffer ?W = - 1"
    by (simp add: model_defs example_defs ui_defs)
  have a2: "take_ok ?envW" and a2': "read_result ?envW = None"
    by (simp_all add: in_range_def)
  have a3': "fst (connectToServer ?envW (xSemaphoreTaken ?W))"
    by (simp add: model_defs example_defs ui_defs)
  then have a3: "connectToServer ?envW (xSemaphoreTaken ?W) = (True, ?w1)"
    by (simp add: prod_eq_iff)
  have "fst (internal_write_weight (- 1) ?envW (vTaskDelay (cb_before_write ?envW) ?w1))"
    by (simp add: model_defs example_defs ui_defs)
  then have a4: "internal_write_weight (- 1) ?envW (vTaskDelay (cb_before_write ?envW) ?w1)
                   = (True, ?w2)"
    by (simp add: prod_eq_iff)
  have a5: "read_fails ?envW (vTaskDelay (cb_before_verify ?envW) ?w2)"
    by (simp add: read_fails_def in_range_def)
  let ?R = "ble_perform_initial_read True boot_state"
  let ?envR = "in_range (Some [255])"
  let ?r1 = "snd (connectToServer ?envR (xSemaphoreTaken ?R))"
  have b1: "take_ok ?envR" and b1': "read_result ?envR = Some [255]"
    by (simp_all add: in_range_def)
  have b2': "fst (connectToServer ?envR (xSemaphoreTaken ?R))"
    by (simp add: model_defs example_defs ui_defs)
  then have b2: "connectToServer ?envR (xSemaphoreTaken ?R) = (True, ?r1)"
    by (simp add: prod_eq_iff)
  have b3: "connected ?r1 \<and> characteristic_can canRead ?r1"
    by (simp add: model_defs example_defs ui_defs)
  have b4: "target_weight ?R = 36"
    by (simp add: model_defs example_defs ui_defs)
  from read_error_value_is_a_payload
    [where env = ?envW and s = ?W and ?s1.0 = ?w1 and ?s2.0 = ?w2] a1 a2 a3 a4 a5
  have w: "target_weight (write_verify_task ?envW ?W) = - 1
           \<and> checkmark (write_verify_task ?envW ?W)"
    by simp
  have B: "take_ok ?envR \<and> connectToServer ?envR (xSemaphoreTaken ?R) = (True, ?r1)
        \<and> connected ?r1 \<and> characteristic_can canRead ?r1
        \<and> read_result ?envR = Some (255 # [])"
    using b1 b1' b2 b3 by simp
  note round = read_error_value_is_a_payload
    [where env = ?envR and s = ?R and ?s1.0 = ?r1 and bs = "[]" and rest = "[]",
      THEN conjunct2, THEN conjunct2, THEN conjunct2, THEN mp, OF B]
  have r1: "fst (initial_read_loop [?envR] ?R) = False"
    using round [THEN conjunct1] by (simp only: fst_conv)
  have r2: "target_weight (snd (initial_read_loop [?envR] ?R)) = 36"
    using round [THEN conjunct2, THEN conjunct1] b4 by (simp only:)
  from a1 a2 a2' a3' b1 b1' b2' w r1 r2 show ?thesis
    by (simp del: initial_read_loop.simps)
qed

end
